theory Spec2Isabelle
  imports Main "HOL-Library.Word"
begin

unbundle bit_operations_syntax

section \<open>Machine model\<close>

text \<open>
  The binding layer of \<^verbatim>\<open>python/generate-python-bindings.cpp\<close> moves data between
  Python buffers and OpenCV values. Its integers are \<^verbatim>\<open>size_t\<close> (64 bit, unsigned) on the
  pybind11 side and \<^verbatim>\<open>int\<close> (32 bit, signed) on the OpenCV side; the conversions between
  the two are written out. Memory is byte addressed. A \<^verbatim>\<open>float\<close> is the four bytes of its
  object representation and a \<^verbatim>\<open>double\<close> the eight bytes of its: the bindings only ever
  copy or alias elements, so no floating point arithmetic is modelled.
\<close>

type_synonym size_t = "64 word"
type_synonym c_int = "32 word"
type_synonym addr = "64 word"
type_synonym byte = "8 word"
type_synonym memory = "addr \<Rightarrow> byte"

definition sizeof_float :: size_t where
  "sizeof_float = 4"

text \<open>Reading \<open>n\<close> consecutive bytes, and storing a block of bytes, at an address.\<close>

definition read_bytes :: "memory \<Rightarrow> addr \<Rightarrow> nat \<Rightarrow> byte list" where
  "read_bytes m a n = map (\<lambda>k. m (a + of_nat k)) [0..<n]"

definition write_bytes :: "memory \<Rightarrow> addr \<Rightarrow> byte list \<Rightarrow> memory" where
  "write_bytes m a bs = (\<lambda>x. if unat (x - a) < length bs then bs ! unat (x - a) else m x)"

subsection \<open>\<^verbatim>\<open>std::to_string\<close> on unsigned values\<close>

definition digit_char :: "nat \<Rightarrow> char" where
  "digit_char d = ''0123456789'' ! d"

fun to_string :: "nat \<Rightarrow> string" where
  "to_string n = (if n < 10 then [digit_char n] else to_string (n div 10) @ [digit_char (n mod 10)])"

declare to_string.simps [simp del]

subsection \<open>Errors\<close>

text \<open>
  Every failure of the bindings is a \<^verbatim>\<open>std::runtime_error\<close> carrying a message. OpenCV's
  \<^verbatim>\<open>CV_Assert\<close> throws a \<^verbatim>\<open>cv::Exception\<close>, and a failed \<^verbatim>\<open>assert\<close> ends the call.
  \<open>unmodelled\<close> marks a path of OpenCV that the bindings never reach and that is not
  translated.
\<close>

datatype error =
  runtime_error string | cv_Exception string | assertion_failed string | unmodelled string

section \<open>pybind11: the buffer descriptor\<close>

text \<open>
  \<^verbatim>\<open>py::buffer_info\<close> with the fields the bindings read or set. \<open>shape\<close> and \<open>strides\<close>
  are \<^verbatim>\<open>std::vector<size_t>\<close>; strides are in bytes.
\<close>

record buffer_info =
  ptr :: addr
  itemsize :: size_t
  format :: string
  ndim :: size_t
  shape :: "size_t list"
  strides :: "size_t list"

definition py_buffer_info ::
  "addr \<Rightarrow> size_t \<Rightarrow> string \<Rightarrow> size_t \<Rightarrow> size_t list \<Rightarrow> size_t list \<Rightarrow> buffer_info" where
  "py_buffer_info p isz fmt nd sh st =
     \<lparr>ptr = p, itemsize = isz, format = fmt, ndim = nd, shape = sh, strides = st\<rparr>"

text \<open>\<^verbatim>\<open>py::format_descriptor<float>::format()\<close> and \<^verbatim>\<open>py::format_descriptor<double>::format()\<close>.\<close>

definition format_float :: string where
  "format_float = ''f''"

definition format_double :: string where
  "format_double = ''d''"

text \<open>
  What a descriptor denotes (the buffer protocol): the element with index \<open>(i\<^sub>0, i\<^sub>1, \<dots>)\<close>
  lies at \<open>ptr + i\<^sub>0 * strides[0] + i\<^sub>1 * strides[1] + \<dots>\<close> and is \<open>itemsize\<close> bytes long.
  \<open>element_addrs\<close> lists the addresses of all elements in row-major index order, and
  \<open>contents\<close> the elements themselves: the flattened contents of the buffer.
\<close>

fun element_addrs :: "size_t list \<Rightarrow> size_t list \<Rightarrow> addr \<Rightarrow> addr list" where
  "element_addrs [] sts base = [base]"
| "element_addrs (n # ns) [] base = []"
| "element_addrs (n # ns) (st # sts) base =
     concat (map (\<lambda>i. element_addrs ns sts (base + of_nat i * st)) [0..<unat n])"

definition contents :: "memory \<Rightarrow> buffer_info \<Rightarrow> byte list list" where
  "contents m b =
     map (\<lambda>a. read_bytes m a (unat (itemsize b))) (element_addrs (shape b) (strides b) (ptr b))"

section \<open>OpenCV: the parts of \<^verbatim>\<open>cv::Mat\<close> and \<^verbatim>\<open>cv::Vec\<close> the bindings use\<close>

text \<open>
  Type codes and flag bits of \<^verbatim>\<open>opencv2/core\<close>: \<^verbatim>\<open>CV_32F = 5\<close>, \<^verbatim>\<open>CV_64F = 6\<close>,
  \<^verbatim>\<open>CV_MAKETYPE(depth, cn) = depth + ((cn - 1) << 3)\<close>, the magic number and the
  continuity flag of the matrix header.
\<close>

definition CV_32F :: c_int where
  "CV_32F = 5"

definition CV_64F :: c_int where
  "CV_64F = 6"

definition CV_MAKETYPE :: "c_int \<Rightarrow> c_int \<Rightarrow> c_int" where
  "CV_MAKETYPE depth cn = (depth AND 7) + push_bit 3 (cn - 1)"

definition CV_32FC1 :: c_int where
  "CV_32FC1 = CV_MAKETYPE CV_32F 1"

definition CV_64FC1 :: c_int where
  "CV_64FC1 = CV_MAKETYPE CV_64F 1"

definition MAGIC_VAL :: c_int where
  "MAGIC_VAL = 0x42FF0000"

definition CONTINUOUS_FLAG :: c_int where
  "CONTINUOUS_FLAG = 16384"

definition TYPE_MASK :: c_int where
  "TYPE_MASK = 0x00000FFF"

definition CV_MAT_CN :: "c_int \<Rightarrow> c_int" where
  "CV_MAT_CN fl = drop_bit 3 (fl AND push_bit 3 511) + 1"

definition CV_MAT_DEPTH :: "c_int \<Rightarrow> c_int" where
  "CV_MAT_DEPTH fl = fl AND 7"

text \<open>
  \<^verbatim>\<open>CV_ELEM_SIZE(type)\<close>: the channel count shifted by the binary logarithm of the size
  of the depth, which OpenCV reads, two bits per depth, from the constant
  \<^verbatim>\<open>(sizeof(size_t)/4+1)*16384|0x3a50\<close>.
\<close>

definition CV_ELEM_SIZE :: "c_int \<Rightarrow> size_t" where
  "CV_ELEM_SIZE ty =
     ucast (push_bit (unat (drop_bit (2 * unat (CV_MAT_DEPTH ty)) (3 * 16384 OR 0x3a50 :: c_int) AND 3))
              (CV_MAT_CN ty))"

text \<open>
  The matrix header. \<open>step\<close> is \<^verbatim>\<open>step[0]\<close>, the distance in bytes between two rows.
\<close>

record Mat =
  flags :: c_int
  dims :: c_int
  rows :: c_int
  cols :: c_int
  data :: addr
  step :: size_t

definition Mat_type :: "Mat \<Rightarrow> c_int" where
  "Mat_type m = flags m AND TYPE_MASK"

definition channels :: "Mat \<Rightarrow> c_int" where
  "channels m = CV_MAT_CN (flags m)"

definition isContinuous :: "Mat \<Rightarrow> bool" where
  "isContinuous m = (flags m AND CONTINUOUS_FLAG \<noteq> 0)"

text \<open>
  \<^verbatim>\<open>cv::Mat(int rows, int cols, int type, void* data, size_t step = AUTO_STEP)\<close>: the
  constructor for user-allocated data. It initialises a header that points to \<open>data\<close>;
  it allocates nothing and copies nothing. With \<^verbatim>\<open>AUTO_STEP\<close> the row step is
  \<open>cols * elemSize\<close> and the header is flagged continuous.
\<close>

definition Mat_user_data :: "c_int \<Rightarrow> c_int \<Rightarrow> c_int \<Rightarrow> addr \<Rightarrow> Mat" where
  "Mat_user_data r c ty p =
     \<lparr>flags = (MAGIC_VAL + (ty AND TYPE_MASK)) OR CONTINUOUS_FLAG,
      dims = 2, rows = r, cols = c, data = p,
      step = scast c * CV_ELEM_SIZE ty\<rparr>"

text \<open>
  \<^verbatim>\<open>cv::Vec<_Tp, cn>\<close> derives from \<^verbatim>\<open>cv::Matx<_Tp, cn, 1>\<close>, and \<^verbatim>\<open>cv::Matx<_Tp, m, n>\<close>
  declares \<^verbatim>\<open>enum { rows = m, cols = n }\<close>: a vector is a column. Its only data member is
  the array \<^verbatim>\<open>_Tp val[cn]\<close>, so \<^verbatim>\<open>&vec.val\<close> is the address of the vector itself.
\<close>

definition Matx_rows :: "nat \<Rightarrow> nat \<Rightarrow> nat" where
  "Matx_rows m n = m"

definition Matx_cols :: "nat \<Rightarrow> nat \<Rightarrow> nat" where
  "Matx_cols m n = n"

definition Vec_rows :: "nat \<Rightarrow> nat" where
  "Vec_rows cn = Matx_rows cn 1"

definition Vec_cols :: "nat \<Rightarrow> nat" where
  "Vec_cols cn = Matx_cols cn 1"

section \<open>The bindings\<close>

subsection \<open>\<^verbatim>\<open>Vec2f\<close> and \<^verbatim>\<open>Vec4f\<close>: export as a buffer\<close>

definition Vec2f_buffer :: "addr \<Rightarrow> buffer_info" where
  "Vec2f_buffer vec =
     py_buffer_info vec sizeof_float format_float 2
       [of_nat (Vec_rows 2), of_nat (Vec_cols 2)] [sizeof_float, sizeof_float]"

definition Vec4f_buffer :: "addr \<Rightarrow> buffer_info" where
  "Vec4f_buffer vec =
     py_buffer_info vec sizeof_float format_float 2
       [of_nat (Vec_rows 4), of_nat (Vec_cols 4)] [sizeof_float, sizeof_float]"

subsection \<open>Program state\<close>

text \<open>
  \<open>mem\<close> holds the raw storage: the memory of the foreign buffers and the \<^verbatim>\<open>val\<close>
  arrays of the vectors. \<open>mats\<close> holds the matrix headers that have been constructed,
  by the address of the \<^verbatim>\<open>cv::Mat\<close> object. \<open>cout\<close> is the list of lines written to
  \<^verbatim>\<open>std::cout\<close>. A binding returns its result, or the exception it throws, together
  with the state it leaves behind.
\<close>

record state =
  mem :: memory
  mats :: "addr \<rightharpoonup> Mat"
  cout :: "string list"

subsection \<open>\<^verbatim>\<open>Vec2f\<close> and \<^verbatim>\<open>Vec4f\<close>: construction from a buffer\<close>

text \<open>
  \<^verbatim>\<open>cv::Mat::operator Vec<float, n>()\<close>, which \<^verbatim>\<open>cv::Vec2f(temp)\<close> goes through: after
  its \<^verbatim>\<open>CV_Assert\<close>, a continuous matrix of type \<^verbatim>\<open>CV_32F\<close> is read as \<open>n\<close> consecutive
  floats from \<open>data\<close>. Any other matrix is converted with \<^verbatim>\<open>convertTo\<close>, which is not
  translated: the headers built by the bindings never take that path.
\<close>

definition Mat_to_Vecf :: "nat \<Rightarrow> Mat \<Rightarrow> memory \<Rightarrow> error + byte list" where
  "Mat_to_Vecf n m mm =
     (if data m \<noteq> 0 \<and> sint (dims m) \<le> 2 \<and> (rows m = 1 \<or> cols m = 1)
           \<and> rows m + cols m - 1 = of_nat n \<and> channels m = 1
      then if isContinuous m \<and> Mat_type m = CV_32F
           then Inr (read_bytes mm (data m) (n * unat sizeof_float))
           else Inl (unmodelled ''cv::Mat::convertTo'')
      else Inl (cv_Exception ''data && dims <= 2 && (rows == 1 || cols == 1) && rows + cols - 1 == n && channels() == 1''))"

text \<open>
  The constructors take the address \<open>vec\<close> of the storage in which the vector is to be
  built. The value is read from the buffer first and stored at \<open>vec\<close> afterwards.
\<close>

definition Vec2f_init :: "addr \<Rightarrow> buffer_info \<Rightarrow> state \<Rightarrow> (error + unit) \<times> state" where
  "Vec2f_init vec info s =
     (if ndim info \<noteq> 1 then
        (Inl (runtime_error (''Buffer ndim is '' @ to_string (unat (ndim info))
           @ '', please hand a buffer with dimension == 1 to create a Vec2f.'')), s)
      else if length (strides info) \<noteq> 1 then
        (Inl (runtime_error (''strides.size() is '' @ to_string (length (strides info))
           @ '', please hand a buffer with strides.size() == 1 to create a Vec2f.'')), s)
      else if length (shape info) \<noteq> 1 then
        (Inl (runtime_error (''shape.size() is '' @ to_string (length (shape info))
           @ '', please hand a buffer with shape dimension == 1 to create a Vec2f.'')), s)
      else if shape info ! 0 \<noteq> 2 then
        (Inl (runtime_error (''shape[0] is '' @ to_string (unat (shape info ! 0))
           @ '', please hand a buffer with 2 entries to create a Vec2f.'')), s)
      else if format info = format_float then
        (let temp = Mat_user_data 1 2 CV_32FC1 (ptr info) in
         case Mat_to_Vecf 2 temp (mem s) of
           Inl e \<Rightarrow> (Inl e, s)
         | Inr v \<Rightarrow> (Inr (), s\<lparr>mem := write_bytes (mem s) vec v\<rparr>))
      else
        (Inl (runtime_error
           ''Not given a buffer of type float - please hand a buffer of type float to create a Vec2f.''), s))"

definition Vec4f_init :: "addr \<Rightarrow> buffer_info \<Rightarrow> state \<Rightarrow> (error + unit) \<times> state" where
  "Vec4f_init vec info s =
     (if ndim info \<noteq> 1 then
        (Inl (runtime_error (''Buffer ndim is '' @ to_string (unat (ndim info))
           @ '', please hand a buffer with dimension == 1 to create a Vec4f.'')), s)
      else if length (strides info) \<noteq> 1 then
        (Inl (runtime_error (''strides.size() is '' @ to_string (length (strides info))
           @ '', please hand a buffer with strides.size() == 1 to create a Vec4f.'')), s)
      else if length (shape info) \<noteq> 1 then
        (Inl (runtime_error (''shape.size() is '' @ to_string (length (shape info))
           @ '', please hand a buffer with shape dimension == 1 to create a Vec4f.'')), s)
      else if shape info ! 0 \<noteq> 4 then
        (Inl (runtime_error (''shape[0] is '' @ to_string (unat (shape info ! 0))
           @ '', please hand a buffer with 4 entries to create a Vec4f.'')), s)
      else if format info = format_float then
        (let temp = Mat_user_data 1 4 CV_32FC1 (ptr info) in
         case Mat_to_Vecf 4 temp (mem s) of
           Inl e \<Rightarrow> (Inl e, s)
         | Inr v \<Rightarrow> (Inr (), s\<lparr>mem := write_bytes (mem s) vec v\<rparr>))
      else
        (Inl (runtime_error
           ''Not given a buffer of type float - please hand a buffer of type float to create a Vec4f.''), s))"

subsection \<open>\<^verbatim>\<open>Mat\<close>: construction from a buffer\<close>

text \<open>
  The constructor takes the address \<open>mat\<close> of the storage in which the header is to be
  built. \<^verbatim>\<open>info.shape[0]\<close> and \<^verbatim>\<open>info.shape[1]\<close> are \<^verbatim>\<open>size_t\<close> and the parameters of
  \<^verbatim>\<open>cv::Mat\<close> are \<^verbatim>\<open>int\<close>: the conversion keeps the low 32 bits.
\<close>

definition Mat_init :: "addr \<Rightarrow> buffer_info \<Rightarrow> state \<Rightarrow> (error + unit) \<times> state" where
  "Mat_init mat info s =
     (if ndim info \<noteq> 2 then
        (Inl (runtime_error (''Buffer ndim is '' @ to_string (unat (ndim info))
           @ '', only buffer dimension == 2 is currently supported.'')), s)
      else if length (strides info) \<noteq> 2 then
        (Inl (runtime_error (''strides.size() is '' @ to_string (length (strides info))
           @ '', only strides.size() == 2 is currently supported.'')), s)
      else if length (shape info) \<noteq> 2 then
        (Inl (runtime_error (''shape.size() is '' @ to_string (length (shape info))
           @ '', only shape dimensions of == 2 are currently supported - i.e. only 2-dimensional matrices with rows and colums.'')), s)
      else if format info = format_float then
        (Inr (), s\<lparr>mats := (mats s)(mat \<mapsto>
           Mat_user_data (ucast (shape info ! 0)) (ucast (shape info ! 1)) CV_32FC1 (ptr info))\<rparr>)
      else if format info = format_double then
        (Inr (), s\<lparr>mats := (mats s)(mat \<mapsto>
           Mat_user_data (ucast (shape info ! 0)) (ucast (shape info ! 1)) CV_64FC1 (ptr info))\<rparr>)
      else
        (Inl (runtime_error
           ''Only the cv::Mat types CV_32FC1 and CV_64FC1 are currently supported. If needed, it should not be too hard to add other types.''), s))"

subsection \<open>\<^verbatim>\<open>Mat\<close>: export as a buffer\<close>

text \<open>
  Each failure is written to \<^verbatim>\<open>std::cout\<close> before it is thrown. \<^verbatim>\<open>mat.rows\<close>,
  \<^verbatim>\<open>mat.cols\<close> and \<^verbatim>\<open>mat.dims\<close> are \<^verbatim>\<open>int\<close> and are converted to \<^verbatim>\<open>size_t\<close> with
  sign extension.
\<close>

definition Mat_buffer :: "Mat \<Rightarrow> state \<Rightarrow> (error + buffer_info) \<times> state" where
  "Mat_buffer mat s =
     (if \<not> isContinuous mat then
        (let error_msg = ''Only continuous (contiguous) cv::Mat objects are currently supported.''
         in (Inl (runtime_error error_msg), s\<lparr>cout := cout s @ [error_msg]\<rparr>))
      else
        (let dimensions = dims mat in
         if dimensions \<noteq> 2 then
           (let error_msg = ''Only cv::Mat objects with dims == 2 are currently supported.''
            in (Inl (runtime_error error_msg), s\<lparr>cout := cout s @ [error_msg]\<rparr>))
         else if channels mat \<noteq> 1 then
           (let error_msg = ''Only cv::Mat objects with channels() == 1 are currently supported.''
            in (Inl (runtime_error error_msg), s\<lparr>cout := cout s @ [error_msg]\<rparr>))
         else
           (let rows' = (scast (rows mat) :: size_t);
                cols' = (scast (cols mat) :: size_t)
            in if Mat_type mat = CV_32F then
                 (Inr (py_buffer_info (data mat) sizeof_float format_float (scast dimensions)
                         [rows', cols'] [sizeof_float * cols', sizeof_float]), s)
               else
                 (let error_msg = ''Only the cv::Mat type CV_32F is currently supported. If needed, it would be easy to add CV_8U and CV_64F.''
                  in (Inl (runtime_error error_msg), s\<lparr>cout := cout s @ [error_msg]\<rparr>)))))"

subsection \<open>\<^verbatim>\<open>fitting.fit_shape_and_pose\<close>\<close>

text \<open>
  \<^verbatim>\<open>core::Landmark<cv::Vec2f>\<close>: a name and the two coordinates.
\<close>

record 'f Landmark =
  name :: string
  coordinates :: "'f \<times> 'f"

text \<open>
  The binding prepares the arguments of the native \<^verbatim>\<open>fitting::fit_shape_and_pose\<close> and
  repacks its results. The native function is a parameter, \<open>native\<close>: it receives the
  three containers it fills by reference (\<^verbatim>\<open>pca_coeffs\<close>, \<^verbatim>\<open>blendshape_coeffs\<close>,
  \<^verbatim>\<open>fitted_image_points\<close>) as arguments and returns them, as it leaves them, next to its
  result pair; it may throw. The models, mappers and contours are opaque values, and so
  is \<^verbatim>\<open>float\<close>. The \<^verbatim>\<open>assert\<close> is taken as enabled.
\<close>

definition fit_shape_and_pose ::
  "('mm \<Rightarrow> 'bs list \<Rightarrow> 'f Landmark list \<Rightarrow> 'lm \<Rightarrow> c_int \<Rightarrow> c_int \<Rightarrow> 'et \<Rightarrow> 'cl \<Rightarrow> 'mc
      \<Rightarrow> c_int \<Rightarrow> c_int option \<Rightarrow> 'f \<Rightarrow> 'rp option \<Rightarrow> 'f list \<Rightarrow> 'f list \<Rightarrow> ('f \<times> 'f) list
      \<Rightarrow> error + (('mesh \<times> 'rp) \<times> 'f list \<times> 'f list \<times> ('f \<times> 'f) list))
   \<Rightarrow> 'mm \<Rightarrow> 'bs list \<Rightarrow> ('f \<times> 'f) list \<Rightarrow> string list \<Rightarrow> 'lm \<Rightarrow> c_int \<Rightarrow> c_int
   \<Rightarrow> 'et \<Rightarrow> 'cl \<Rightarrow> 'mc \<Rightarrow> c_int \<Rightarrow> c_int \<Rightarrow> 'f
   \<Rightarrow> error + ('mesh \<times> 'rp \<times> 'f list \<times> 'f list)" where
  "fit_shape_and_pose native morphable_model blendshapes landmarks landmark_ids landmark_mapper
       image_width image_height edge_topology contour_landmarks model_contour num_iterations
       num_shape_coefficients_to_fit lambda =
     (if length landmarks \<noteq> length landmark_ids then
        Inl (assertion_failed ''landmarks.size() == landmark_ids.size()'')
      else
        (let pca_coeffs = [];
             blendshape_coeffs = [];
             fitted_image_points = [];
             num_shape_coefficients_opt =
               (if num_shape_coefficients_to_fit = - 1 then None
                else Some num_shape_coefficients_to_fit);
             landmark_collection =
               map (\<lambda>i. \<lparr>name = landmark_ids ! i,
                            coordinates = (fst (landmarks ! i), snd (landmarks ! i))\<rparr>)
                 [0..<length landmarks]
         in case native morphable_model blendshapes landmark_collection landmark_mapper
                   image_width image_height edge_topology contour_landmarks model_contour
                   num_iterations num_shape_coefficients_opt lambda None
                   pca_coeffs blendshape_coeffs fitted_image_points of
              Inl e \<Rightarrow> Inl e
            | Inr (result, pca_coeffs', blendshape_coeffs', fitted_image_points') \<Rightarrow>
                Inr (fst result, snd result, pca_coeffs', blendshape_coeffs')))"

section \<open>Notions of the specification\<close>

text \<open>
  The elements \<^verbatim>\<open>val[0]\<close>, \<open>\<dots>\<close>, \<^verbatim>\<open>val[n-1]\<close> of the vector stored at \<open>vec\<close>.
\<close>

definition Vec_elements :: "memory \<Rightarrow> addr \<Rightarrow> nat \<Rightarrow> byte list list" where
  "Vec_elements m vec n = map (\<lambda>i. read_bytes m (vec + of_nat i * sizeof_float) 4) [0..<n]"

text \<open>
  A rank-1 \<^verbatim>\<open>float32\<close> buffer of \<open>n\<close> elements with the byte stride \<open>st\<close> between
  its elements, as the buffer protocol describes it: one extent, one stride, elements of
  4 bytes, and a base pointer that is not null. For \<open>n = 2\<close> and \<open>n = 4\<close> it passes
  the five checks of the respective vector constructor, whatever \<open>st\<close> is.
\<close>

definition float32_1d :: "buffer_info \<Rightarrow> size_t \<Rightarrow> size_t \<Rightarrow> bool" where
  "float32_1d b n st \<longleftrightarrow>
     ptr b \<noteq> 0 \<and> itemsize b = 4 \<and> format b = format_float \<and> ndim b = 1
     \<and> shape b = [n] \<and> strides b = [st]"

text \<open>
  A contiguous row-major \<^verbatim>\<open>float32\<close> buffer of shape \<open>(R, C)\<close>: rows \<open>4 * C\<close> bytes
  apart, elements 4 bytes apart.
\<close>

definition contiguous_float32_2d :: "buffer_info \<Rightarrow> size_t \<Rightarrow> size_t \<Rightarrow> bool" where
  "contiguous_float32_2d b R C \<longleftrightarrow>
     itemsize b = 4 \<and> format b = format_float \<and> ndim b = 2
     \<and> shape b = [R, C] \<and> strides b = [4 * C, 4]"

text \<open>
  The five conditions the constructor of the vector of arity \<open>n\<close> checks, and the four
  conditions the matrix constructor checks, for either format.
\<close>

definition accepted_1d :: "buffer_info \<Rightarrow> size_t \<Rightarrow> bool" where
  "accepted_1d b n \<longleftrightarrow>
     ndim b = 1 \<and> length (strides b) = 1 \<and> length (shape b) = 1 \<and> shape b ! 0 = n
     \<and> format b = format_float"

definition accepted_2d :: "buffer_info \<Rightarrow> bool" where
  "accepted_2d b \<longleftrightarrow>
     ndim b = 2 \<and> length (strides b) = 2 \<and> length (shape b) = 2
     \<and> (format b = format_float \<or> format b = format_double)"

section \<open>Example inputs\<close>

text \<open>
  The state whose memory holds the byte \<open>a mod 256\<close> at every address \<open>a\<close>, with no
  matrix constructed and nothing printed; a rank-1 \<^verbatim>\<open>float32\<close> descriptor with \<open>n\<close>
  elements \<open>st\<close> bytes apart; and a contiguous row-major rank-2 descriptor with elements
  of \<open>isz\<close> bytes.
\<close>

abbreviation counting :: state where
  "counting \<equiv> \<lparr>mem = ucast, mats = Map.empty, cout = []\<rparr>"

abbreviation float32_line :: "addr \<Rightarrow> size_t \<Rightarrow> size_t \<Rightarrow> buffer_info" where
  "float32_line p n st \<equiv>
     \<lparr>ptr = p, itemsize = 4, format = ''f'', ndim = 1, shape = [n], strides = [st]\<rparr>"

abbreviation grid :: "addr \<Rightarrow> size_t \<Rightarrow> string \<Rightarrow> size_t \<Rightarrow> size_t \<Rightarrow> buffer_info" where
  "grid p isz fmt r c \<equiv>
     \<lparr>ptr = p, itemsize = isz, format = fmt, ndim = 2, shape = [r, c], strides = [isz * c, isz]\<rparr>"

section \<open>Auxiliary facts\<close>

lemma length_read_bytes: "length (read_bytes m a n) = n"
  by (simp add: read_bytes_def)

lemma nth_read_bytes: "k < n \<Longrightarrow> read_bytes m a n ! k = m (a + of_nat k)"
  by (simp add: read_bytes_def)

lemma write_bytes_at:
  "k < length bs \<Longrightarrow> length bs < 2 ^ 64 \<Longrightarrow> write_bytes m a bs (a + of_nat k) = bs ! k"
  by (simp add: write_bytes_def unat_of_nat)

lemma read_bytes_write_bytes:
  assumes "k + n \<le> length bs" "length bs < 2 ^ 64"
  shows "read_bytes (write_bytes m a bs) (a + of_nat k) n = take n (drop k bs)"
proof (rule nth_equalityI)
  show "length (read_bytes (write_bytes m a bs) (a + of_nat k) n) = length (take n (drop k bs))"
    using assms by (simp add: length_read_bytes)
next
  fix i assume "i < length (read_bytes (write_bytes m a bs) (a + of_nat k) n)"
  then have i: "i < n" by (simp add: length_read_bytes)
  have "write_bytes m a bs (a + of_nat (k + i)) = bs ! (k + i)"
    using assms i by (intro write_bytes_at) simp_all
  then show "read_bytes (write_bytes m a bs) (a + of_nat k) n ! i = take n (drop k bs) ! i"
    using assms i by (simp add: nth_read_bytes add.assoc)
qed

lemma take_drop_read_bytes:
  assumes "k + n \<le> N"
  shows "take n (drop k (read_bytes m p N)) = read_bytes m (p + of_nat k) n"
proof (rule nth_equalityI)
  show "length (take n (drop k (read_bytes m p N))) = length (read_bytes m (p + of_nat k) n)"
    using assms by (simp add: length_read_bytes)
next
  fix i assume "i < length (take n (drop k (read_bytes m p N)))"
  then have i: "i < n" by simp
  show "take n (drop k (read_bytes m p N)) ! i = read_bytes m (p + of_nat k) n ! i"
    using assms i by (simp add: nth_read_bytes length_read_bytes add.assoc)
qed

text \<open>Reading back a part of a block that was copied from \<open>p\<close> to \<open>a\<close>.\<close>

lemma copied_block:
  assumes "k + n \<le> N" "N < 2 ^ 64"
  shows "read_bytes (write_bytes m a (read_bytes m p N)) (a + of_nat k) n
         = read_bytes m (p + of_nat k) n"
  using assms by (simp add: read_bytes_write_bytes length_read_bytes take_drop_read_bytes)

lemmas header_defs =
  isContinuous_def Mat_type_def channels_def Mat_user_data_def CV_32FC1_def CV_64FC1_def
  CV_MAKETYPE_def CV_32F_def CV_64F_def MAGIC_VAL_def TYPE_MASK_def CONTINUOUS_FLAG_def
  CV_MAT_CN_def

text \<open>The headers the constructor for user data builds for the two supported types.\<close>

lemma header_32F:
  "isContinuous (Mat_user_data r c CV_32FC1 p)"
  "Mat_type (Mat_user_data r c CV_32FC1 p) = CV_32F"
  "channels (Mat_user_data r c CV_32FC1 p) = 1"
  by (simp_all add: header_defs)

lemma header_64F:
  "isContinuous (Mat_user_data r c CV_64FC1 p)"
  "Mat_type (Mat_user_data r c CV_64FC1 p) = CV_64F"
  "channels (Mat_user_data r c CV_64FC1 p) = 1"
  by (simp_all add: header_defs)

lemma header_fields:
  "dims (Mat_user_data r c ty p) = 2"
  "rows (Mat_user_data r c ty p) = r"
  "cols (Mat_user_data r c ty p) = c"
  "data (Mat_user_data r c ty p) = p"
  by (simp_all add: Mat_user_data_def)

lemma CV_ELEM_SIZE_values: "CV_ELEM_SIZE CV_32FC1 = 4" "CV_ELEM_SIZE CV_64FC1 = 8"
  by (simp_all add: CV_ELEM_SIZE_def CV_MAT_DEPTH_def header_defs)

text \<open>The temporary headers of the vector constructors always take the copying path.\<close>

lemma temp_to_Vec2f:
  "p \<noteq> 0 \<Longrightarrow> Mat_to_Vecf 2 (Mat_user_data 1 2 CV_32FC1 p) m = Inr (read_bytes m p 8)"
  by (simp add: Mat_to_Vecf_def header_defs sizeof_float_def)

lemma temp_to_Vec4f:
  "p \<noteq> 0 \<Longrightarrow> Mat_to_Vecf 4 (Mat_user_data 1 4 CV_32FC1 p) m = Inr (read_bytes m p 16)"
  by (simp add: Mat_to_Vecf_def header_defs sizeof_float_def)

text \<open>An extent below \<open>2\<^sup>3\<^sup>1\<close> survives the conversion to \<^verbatim>\<open>int\<close> and back.\<close>

lemma sint_ucast_small:
  fixes x :: "64 word"
  assumes "x < 0x80000000"
  shows "sint (ucast x :: 32 word) = uint x"
proof -
  have u: "uint x < 2147483648"
    using assms by (simp add: word_less_def)
  have a: "uint (ucast x :: 32 word) = uint x"
    using u by (simp add: unsigned_ucast_eq take_bit_int_eq_self)
  have lo: "- (2 ^ 31) \<le> uint x"
    by (rule order_trans [of _ 0]) simp_all
  have hi: "uint x < 2 ^ 31"
    using u by simp
  have "sint (ucast x :: 32 word) = signed_take_bit 31 (uint (ucast x :: 32 word))"
    by (simp add: sint_uint)
  also have "\<dots> = uint x"
    unfolding a by (rule signed_take_bit_int_eq_self [OF lo hi])
  finally show ?thesis .
qed

lemma scast_ucast_small:
  fixes x :: "64 word"
  assumes "x < 0x80000000"
  shows "scast (ucast x :: 32 word) = x"
  using sint_ucast_small [OF assms] by (simp add: scast_eq)

text \<open>What the vector constructors do with a buffer they accept.\<close>

lemma Vec2f_init_accepts:
  assumes "float32_1d info 2 st"
  shows "Vec2f_init vec info s
         = (Inr (), s\<lparr>mem := write_bytes (mem s) vec (read_bytes (mem s) (ptr info) 8)\<rparr>)"
  using assms by (simp add: float32_1d_def Vec2f_init_def temp_to_Vec2f)

lemma Vec4f_init_accepts:
  assumes "float32_1d info 4 st"
  shows "Vec4f_init vec info s
         = (Inr (), s\<lparr>mem := write_bytes (mem s) vec (read_bytes (mem s) (ptr info) 16)\<rparr>)"
  using assms by (simp add: float32_1d_def Vec4f_init_def temp_to_Vec4f)

lemma copied_whole:
  "N < 2 ^ 64 \<Longrightarrow> read_bytes (write_bytes m a (read_bytes m p N)) a N = read_bytes m p N"
  using copied_block [of 0 N N m a p] by simp

lemma Vec_elements_copied2:
  "Vec_elements (write_bytes m vec (read_bytes m p 8)) vec 2
   = [read_bytes m p 4, read_bytes m (p + 4) 4]"
  using copied_block [of 0 4 8 m vec p] copied_block [of 4 4 8 m vec p]
  by (simp add: Vec_elements_def upt_rec sizeof_float_def)

lemma Vec_elements_copied4:
  "Vec_elements (write_bytes m vec (read_bytes m p 16)) vec 4
   = [read_bytes m p 4, read_bytes m (p + 4) 4, read_bytes m (p + 8) 4, read_bytes m (p + 12) 4]"
  using copied_block [of 0 4 16 m vec p] copied_block [of 4 4 16 m vec p]
    copied_block [of 8 4 16 m vec p] copied_block [of 12 4 16 m vec p]
  by (simp add: Vec_elements_def upt_rec sizeof_float_def)

lemma contents_line2:
  "float32_1d info 2 st \<Longrightarrow>
   contents m info = [read_bytes m (ptr info) 4, read_bytes m (ptr info + st) 4]"
  by (simp add: float32_1d_def contents_def upt_rec)

lemma contents_line4:
  "float32_1d info 4 st \<Longrightarrow>
   contents m info
     = [read_bytes m (ptr info) 4, read_bytes m (ptr info + st) 4,
        read_bytes m (ptr info + 2 * st) 4, read_bytes m (ptr info + 3 * st) 4]"
  by (simp add: float32_1d_def contents_def upt_rec)

lemma contents_Vec_buffer:
  "contents m (Vec2f_buffer vec) = Vec_elements m vec 2"
  "contents m (Vec4f_buffer vec) = Vec_elements m vec 4"
  by (simp_all add: Vec2f_buffer_def Vec4f_buffer_def py_buffer_info_def sizeof_float_def
      Vec_rows_def Vec_cols_def Matx_rows_def Matx_cols_def contents_def Vec_elements_def upt_rec)

text \<open>What the matrix bindings do on each of their paths.\<close>

lemma Mat_init_float:
  assumes "ndim info = 2" "length (strides info) = 2" "length (shape info) = 2"
    "format info = format_float"
  shows "Mat_init mat info s
         = (Inr (), s\<lparr>mats := (mats s)(mat \<mapsto>
              Mat_user_data (ucast (shape info ! 0)) (ucast (shape info ! 1)) CV_32FC1 (ptr info))\<rparr>)"
  using assms by (simp add: Mat_init_def)

lemma Mat_init_double:
  assumes "ndim info = 2" "length (strides info) = 2" "length (shape info) = 2"
    "format info = format_double"
  shows "Mat_init mat info s
         = (Inr (), s\<lparr>mats := (mats s)(mat \<mapsto>
              Mat_user_data (ucast (shape info ! 0)) (ucast (shape info ! 1)) CV_64FC1 (ptr info))\<rparr>)"
  using assms by (simp add: Mat_init_def format_float_def format_double_def)

lemma step_32F: "step (Mat_user_data r c CV_32FC1 p) = scast c * 4"
  by (simp add: Mat_user_data_def CV_ELEM_SIZE_values)

lemma step_64F: "step (Mat_user_data r c CV_64FC1 p) = scast c * 8"
  by (simp add: Mat_user_data_def CV_ELEM_SIZE_values)

lemma Mat_buffer_32F:
  assumes "isContinuous m" "dims m = 2" "channels m = 1" "Mat_type m = CV_32F"
  shows "Mat_buffer m s
         = (Inr \<lparr>ptr = data m, itemsize = 4, format = format_float, ndim = 2,
                 shape = [scast (rows m), scast (cols m)],
                 strides = [4 * scast (cols m), 4]\<rparr>, s)"
  using assms by (simp add: Mat_buffer_def py_buffer_info_def sizeof_float_def Let_def)

lemma Mat_buffer_not_32F:
  assumes "isContinuous m" "dims m = 2" "channels m = 1" "Mat_type m \<noteq> CV_32F"
  shows "Mat_buffer m s
         = (Inl (runtime_error ''Only the cv::Mat type CV_32F is currently supported. If needed, it would be easy to add CV_8U and CV_64F.''),
            s\<lparr>cout := cout s @ [''Only the cv::Mat type CV_32F is currently supported. If needed, it would be easy to add CV_8U and CV_64F.'']\<rparr>)"
  using assms by (simp add: Mat_buffer_def Let_def)

lemma CV_64F_neq_32F: "CV_64F \<noteq> CV_32F"
  by (simp add: CV_64F_def CV_32F_def)

lemma depth_of_type: "CV_MAT_DEPTH (flags m) = Mat_type m AND 7"
  by (simp add: CV_MAT_DEPTH_def Mat_type_def TYPE_MASK_def and.assoc)

lemma depth_64F_not_32F:
  assumes "CV_MAT_DEPTH (flags m) = CV_64F"
  shows "Mat_type m \<noteq> CV_32F"
proof
  assume "Mat_type m = CV_32F"
  then have "CV_MAT_DEPTH (flags m) = CV_32F AND 7"
    by (simp add: depth_of_type)
  with assms show False
    by (simp add: CV_64F_def CV_32F_def)
qed

lemma Mat_buffer_depth_64F:
  assumes "CV_MAT_DEPTH (flags m) = CV_64F"
  shows "Mat_buffer m s =
     (let error_msg =
        (if \<not> isContinuous m then
           ''Only continuous (contiguous) cv::Mat objects are currently supported.''
         else if dims m \<noteq> 2 then
           ''Only cv::Mat objects with dims == 2 are currently supported.''
         else if channels m \<noteq> 1 then
           ''Only cv::Mat objects with channels() == 1 are currently supported.''
         else
           ''Only the cv::Mat type CV_32F is currently supported. If needed, it would be easy to add CV_8U and CV_64F.'')
      in (Inl (runtime_error error_msg), s\<lparr>cout := cout s @ [error_msg]\<rparr>))"
  using depth_64F_not_32F [OF assms] by (simp add: Mat_buffer_def Let_def)

lemma header_64F_explicit:
  "Mat_user_data r c CV_64FC1 p
   = \<lparr>flags = 0x42FF4006, dims = 2, rows = r, cols = c, data = p, step = scast c * 8\<rparr>"
  by (simp add: Mat_user_data_def CV_ELEM_SIZE_values) (simp add: header_defs)

text \<open>No binding changes the state on a path that ends in an exception.\<close>

lemma Vec2f_init_failure: "fst (Vec2f_init vec info s) = Inl e \<Longrightarrow> snd (Vec2f_init vec info s) = s"
  by (simp add: Vec2f_init_def Let_def split: if_splits sum.splits)

lemma Vec4f_init_failure: "fst (Vec4f_init vec info s) = Inl e \<Longrightarrow> snd (Vec4f_init vec info s) = s"
  by (simp add: Vec4f_init_def Let_def split: if_splits sum.splits)

lemma Mat_init_failure: "fst (Mat_init mat info s) = Inl e \<Longrightarrow> snd (Mat_init mat info s) = s"
  by (simp add: Mat_init_def split: if_splits)

lemma Mat_buffer_failure:
  "mem (snd (Mat_buffer m s)) = mem s \<and> mats (snd (Mat_buffer m s)) = mats s"
  by (simp add: Mat_buffer_def Let_def)

lemma Vec2f_init_violation: "\<not> accepted_1d info 2 \<Longrightarrow> \<exists>e. Vec2f_init vec info s = (Inl e, s)"
  by (auto simp add: accepted_1d_def Vec2f_init_def)

lemma Vec4f_init_violation: "\<not> accepted_1d info 4 \<Longrightarrow> \<exists>e. Vec4f_init vec info s = (Inl e, s)"
  by (auto simp add: accepted_1d_def Vec4f_init_def)

lemma Mat_init_violation: "\<not> accepted_2d info \<Longrightarrow> \<exists>e. Mat_init mat info s = (Inl e, s)"
  by (auto simp add: accepted_2d_def Mat_init_def)

lemma Mat_buffer_violation:
  "\<not> (isContinuous m \<and> dims m = 2 \<and> channels m = 1 \<and> Mat_type m = CV_32F) \<Longrightarrow>
   \<exists>e. fst (Mat_buffer m s) = Inl e"
  by (auto simp add: Mat_buffer_def Let_def)

lemma landmark_collection_zip:
  assumes "length landmarks = length landmark_ids"
  shows "map (\<lambda>i. \<lparr>name = landmark_ids ! i,
                     coordinates = (fst (landmarks ! i), snd (landmarks ! i))\<rparr>)
           [0..<length landmarks]
         = map (\<lambda>(n, p). \<lparr>name = n, coordinates = p\<rparr>) (zip landmark_ids landmarks)"
  using assms by (intro nth_equalityI) simp_all

section \<open>Exporting a vector\<close>

text \<open>
  C1. Exporting a vector of arity \<open>N\<close> (2 for \<^verbatim>\<open>Vec2f\<close>, 4 for \<^verbatim>\<open>Vec4f\<close>) yields a
  descriptor whose pointer is the address of the vector's own storage, with element
  size 4, format \<^verbatim>\<open>float32\<close>, rank 2 and strides \<open>(4, 4)\<close>. The shape is
  \<open>(rows, cols)\<close> of the vector type, which is \<open>(N, 1)\<close>: a column, not the row
  \<open>(1, N)\<close>. Nothing is copied: in every memory, the flattened contents of the
  descriptor are the \<open>N\<close> floats stored in the vector itself.
\<close>

theorem Vec_buffer_descriptor:
  "Vec2f_buffer vec =
     \<lparr>ptr = vec, itemsize = 4, format = format_float, ndim = 2, shape = [2, 1], strides = [4, 4]\<rparr>
   \<and> Vec4f_buffer vec =
     \<lparr>ptr = vec, itemsize = 4, format = format_float, ndim = 2, shape = [4, 1], strides = [4, 4]\<rparr>
   \<and> contents m (Vec2f_buffer vec) = Vec_elements m vec 2
   \<and> contents m (Vec4f_buffer vec) = Vec_elements m vec 4"
  by (simp add: Vec2f_buffer_def Vec4f_buffer_def py_buffer_info_def sizeof_float_def
      Vec_rows_def Vec_cols_def Matx_rows_def Matx_cols_def contents_def Vec_elements_def upt_rec)

text \<open>
  The shape of an exported \<^verbatim>\<open>Vec2f\<close> is \<open>(2, 1)\<close>, not \<open>(1, 2)\<close>.
\<close>

theorem Vec2f_buffer_shape_counterexample:
  "shape (Vec2f_buffer 4096) = [2, 1] \<and> shape (Vec2f_buffer 4096) \<noteq> [1, 2]"
  by (simp add: Vec2f_buffer_def py_buffer_info_def Vec_rows_def Vec_cols_def
      Matx_rows_def Matx_cols_def)

section \<open>Constructing a vector\<close>

text \<open>
  C4. For every rank-1 \<^verbatim>\<open>float32\<close> buffer of length 2 (respectively 4) whose elements
  are contiguous, that is, whose byte stride is 4, the constructor succeeds, the
  elements of the constructed vector are the elements of the buffer in order, and the
  flattened contents of the exported vector are the flattened contents of the input.
\<close>

theorem Vec_round_trip:
  "(float32_1d info 2 4 \<longrightarrow>
      fst (Vec2f_init vec info s) = Inr ()
      \<and> Vec_elements (mem (snd (Vec2f_init vec info s))) vec 2 = contents (mem s) info
      \<and> contents (mem (snd (Vec2f_init vec info s))) (Vec2f_buffer vec) = contents (mem s) info)
   \<and> (float32_1d info 4 4 \<longrightarrow>
      fst (Vec4f_init vec info s) = Inr ()
      \<and> Vec_elements (mem (snd (Vec4f_init vec info s))) vec 4 = contents (mem s) info
      \<and> contents (mem (snd (Vec4f_init vec info s))) (Vec4f_buffer vec) = contents (mem s) info)"
proof (intro conjI impI)
  assume a: "float32_1d info 2 4"
  note i = Vec2f_init_accepts [OF a, of vec s]
  show "fst (Vec2f_init vec info s) = Inr ()"
    by (simp add: i)
  show e: "Vec_elements (mem (snd (Vec2f_init vec info s))) vec 2 = contents (mem s) info"
    by (simp add: i Vec_elements_copied2 contents_line2 [OF a])
  show "contents (mem (snd (Vec2f_init vec info s))) (Vec2f_buffer vec) = contents (mem s) info"
    by (simp only: contents_Vec_buffer e)
next
  assume a: "float32_1d info 4 4"
  note i = Vec4f_init_accepts [OF a, of vec s]
  show "fst (Vec4f_init vec info s) = Inr ()"
    by (simp add: i)
  show e: "Vec_elements (mem (snd (Vec4f_init vec info s))) vec 4 = contents (mem s) info"
    by (simp add: i Vec_elements_copied4 contents_line4 [OF a])
  show "contents (mem (snd (Vec4f_init vec info s))) (Vec4f_buffer vec) = contents (mem s) info"
    by (simp only: contents_Vec_buffer e)
qed

text \<open>
  In the memory that holds the byte \<open>a mod 256\<close> at every address \<open>a\<close>, a contiguous
  buffer of two floats at address 4096 and one of four floats at address 8192 are
  copied into vectors at address 256 and exported again.
\<close>

theorem Vec_round_trip_witness:
  "float32_1d (float32_line 4096 2 4) 2 4
   \<and> fst (Vec2f_init 256 (float32_line 4096 2 4) counting) = Inr ()
   \<and> contents (mem (snd (Vec2f_init 256 (float32_line 4096 2 4) counting))) (Vec2f_buffer 256)
     = [[0, 1, 2, 3], [4, 5, 6, 7]]
   \<and> float32_1d (float32_line 8192 4 4) 4 4
   \<and> fst (Vec4f_init 256 (float32_line 8192 4 4) counting) = Inr ()
   \<and> contents (mem (snd (Vec4f_init 256 (float32_line 8192 4 4) counting))) (Vec4f_buffer 256)
     = [[0, 1, 2, 3], [4, 5, 6, 7], [8, 9, 10, 11], [12, 13, 14, 15]]"
  using Vec_round_trip [of "float32_line 4096 2 4" 256 counting]
    Vec_round_trip [of "float32_line 8192 4 4" 256 counting]
  by (simp add: float32_1d_def format_float_def contents_def read_bytes_def upt_rec)

text \<open>
  A buffer of two floats that lie 8 bytes apart passes every check of the constructor.
  Its elements are the floats at addresses 4096 and 4104; the constructed vector holds
  the floats at addresses 4096 and 4100.
\<close>

theorem Vec2f_strided_counterexample:
  "float32_1d (float32_line 4096 2 8) 2 8
   \<and> fst (Vec2f_init 256 (float32_line 4096 2 8) counting) = Inr ()
   \<and> contents (mem counting) (float32_line 4096 2 8) = [[0, 1, 2, 3], [8, 9, 10, 11]]
   \<and> Vec_elements (mem (snd (Vec2f_init 256 (float32_line 4096 2 8) counting))) 256 2
       = [[0, 1, 2, 3], [4, 5, 6, 7]]"
  apply (simp add: float32_1d_def format_float_def Vec2f_init_def temp_to_Vec2f
      Vec_elements_copied2 contents_def)
  apply (simp add: read_bytes_def upt_rec)
  done

text \<open>
  C7. A buffer whose rank is not 1 is rejected by both vector constructors with the
  error that reports the dimensionality (the specification's ShapeError, thrown as
  \<^verbatim>\<open>std::runtime_error\<close>), and no vector is produced: the state is as before.
\<close>

theorem Vec_init_rejects_rank:
  "ndim info \<noteq> 1 \<Longrightarrow>
   Vec2f_init vec info s =
     (Inl (runtime_error (''Buffer ndim is '' @ to_string (unat (ndim info))
        @ '', please hand a buffer with dimension == 1 to create a Vec2f.'')), s)
   \<and> Vec4f_init vec info s =
     (Inl (runtime_error (''Buffer ndim is '' @ to_string (unat (ndim info))
        @ '', please hand a buffer with dimension == 1 to create a Vec4f.'')), s)"
  by (simp add: Vec2f_init_def Vec4f_init_def)

text \<open>The buffer of shape \<open>(1, 3)\<close> offered to the vector constructors.\<close>

theorem Vec_init_rejects_rank_witness:
  "ndim (grid 4096 4 ''f'' 1 3) \<noteq> 1
   \<and> Vec2f_init 256 (grid 4096 4 ''f'' 1 3) counting
      = (Inl (runtime_error
           ''Buffer ndim is 2, please hand a buffer with dimension == 1 to create a Vec2f.''),
         counting)
   \<and> Vec4f_init 256 (grid 4096 4 ''f'' 1 3) counting
      = (Inl (runtime_error
           ''Buffer ndim is 2, please hand a buffer with dimension == 1 to create a Vec4f.''),
         counting)"
  using Vec_init_rejects_rank [of "grid 4096 4 ''f'' 1 3" 256 counting]
  by (simp add: to_string.simps digit_char_def)

text \<open>
  C10. The vector constructors read the number of strides and never their value. A
  rank-1 \<^verbatim>\<open>float32\<close> buffer of length \<open>N\<close> is accepted whatever its byte stride \<open>st\<close>
  is, and the vector receives the \<open>4 * N\<close> consecutive bytes, that is the \<open>N\<close>
  consecutive floats, at the base pointer. For every descriptor, accepted or not, the
  outcome with the stride \<open>st\<close> is the outcome with the default stride 4.
\<close>

theorem Vec_init_ignores_stride:
  "(float32_1d info 2 st \<longrightarrow>
      Vec2f_init vec info s
        = (Inr (), s\<lparr>mem := write_bytes (mem s) vec (read_bytes (mem s) (ptr info) 8)\<rparr>)
      \<and> read_bytes (mem (snd (Vec2f_init vec info s))) vec 8 = read_bytes (mem s) (ptr info) 8)
   \<and> (float32_1d info 4 st \<longrightarrow>
      Vec4f_init vec info s
        = (Inr (), s\<lparr>mem := write_bytes (mem s) vec (read_bytes (mem s) (ptr info) 16)\<rparr>)
      \<and> read_bytes (mem (snd (Vec4f_init vec info s))) vec 16 = read_bytes (mem s) (ptr info) 16)
   \<and> Vec2f_init vec (info\<lparr>strides := [st]\<rparr>) s = Vec2f_init vec (info\<lparr>strides := [4]\<rparr>) s
   \<and> Vec4f_init vec (info\<lparr>strides := [st]\<rparr>) s = Vec4f_init vec (info\<lparr>strides := [4]\<rparr>) s"
proof (intro conjI impI)
  assume a: "float32_1d info 2 st"
  show "Vec2f_init vec info s
        = (Inr (), s\<lparr>mem := write_bytes (mem s) vec (read_bytes (mem s) (ptr info) 8)\<rparr>)"
    by (rule Vec2f_init_accepts [OF a])
  then show "read_bytes (mem (snd (Vec2f_init vec info s))) vec 8
             = read_bytes (mem s) (ptr info) 8"
    by (simp add: copied_whole)
next
  assume a: "float32_1d info 4 st"
  show "Vec4f_init vec info s
        = (Inr (), s\<lparr>mem := write_bytes (mem s) vec (read_bytes (mem s) (ptr info) 16)\<rparr>)"
    by (rule Vec4f_init_accepts [OF a])
  then show "read_bytes (mem (snd (Vec4f_init vec info s))) vec 16
             = read_bytes (mem s) (ptr info) 16"
    by (simp add: copied_whole)
next
  show "Vec2f_init vec (info\<lparr>strides := [st]\<rparr>) s = Vec2f_init vec (info\<lparr>strides := [4]\<rparr>) s"
    by (simp add: Vec2f_init_def)
  show "Vec4f_init vec (info\<lparr>strides := [st]\<rparr>) s = Vec4f_init vec (info\<lparr>strides := [4]\<rparr>) s"
    by (simp add: Vec4f_init_def)
qed

text \<open>
  Buffers whose elements lie 8 bytes apart: the vectors receive the consecutive bytes
  at the base pointers all the same.
\<close>

theorem Vec_init_ignores_stride_witness:
  "float32_1d (float32_line 4096 2 8) 2 8
   \<and> fst (Vec2f_init 256 (float32_line 4096 2 8) counting) = Inr ()
   \<and> read_bytes (mem (snd (Vec2f_init 256 (float32_line 4096 2 8) counting))) 256 8
       = [0, 1, 2, 3, 4, 5, 6, 7]
   \<and> float32_1d (float32_line 8192 4 8) 4 8
   \<and> fst (Vec4f_init 256 (float32_line 8192 4 8) counting) = Inr ()
   \<and> read_bytes (mem (snd (Vec4f_init 256 (float32_line 8192 4 8) counting))) 256 16
       = [0, 1, 2, 3, 4, 5, 6, 7, 8, 9, 10, 11, 12, 13, 14, 15]"
proof -
  have a: "float32_1d (float32_line 4096 2 8) 2 8"
    and b: "float32_1d (float32_line 8192 4 8) 4 8"
    by (simp_all add: float32_1d_def format_float_def)
  note t2 = Vec_init_ignores_stride [of "float32_line 4096 2 8" 8 256 counting]
  note t4 = Vec_init_ignores_stride [of "float32_line 8192 4 8" 8 256 counting]
  have c2: "fst (Vec2f_init 256 (float32_line 4096 2 8) counting) = Inr ()"
    using t2 a by simp
  have d2: "read_bytes (mem (snd (Vec2f_init 256 (float32_line 4096 2 8) counting))) 256 8
            = read_bytes (mem counting) (ptr (float32_line 4096 2 8)) 8"
    using t2 a by blast
  have c4: "fst (Vec4f_init 256 (float32_line 8192 4 8) counting) = Inr ()"
    using t4 b by simp
  have d4: "read_bytes (mem (snd (Vec4f_init 256 (float32_line 8192 4 8) counting))) 256 16
            = read_bytes (mem counting) (ptr (float32_line 8192 4 8)) 16"
    using t4 b by blast
  have e2: "read_bytes (mem counting) (ptr (float32_line 4096 2 8)) 8 = [0, 1, 2, 3, 4, 5, 6, 7]"
    by (simp add: read_bytes_def upt_rec)
  have e4: "read_bytes (mem counting) (ptr (float32_line 8192 4 8)) 16
            = [0, 1, 2, 3, 4, 5, 6, 7, 8, 9, 10, 11, 12, 13, 14, 15]"
    by (simp add: read_bytes_def upt_rec)
  show ?thesis
    by (simp only: a b c2 d2 c4 d4 e2 e4 simp_thms)
qed

section \<open>Constructing a matrix\<close>

text \<open>
  C2. For every rank-2 buffer with two strides and two extents whose format is
  \<^verbatim>\<open>float32\<close> or \<^verbatim>\<open>float64\<close>, the constructor succeeds and builds a matrix header
  with \<open>rows\<close> and \<open>cols\<close> the extents \<open>shape[0]\<close> and \<open>shape[1]\<close> converted to
  \<^verbatim>\<open>int\<close> (the extents themselves when they are below \<open>2\<^sup>3\<^sup>1\<close>), the element type of
  the format, one channel, the automatic row step \<open>cols * elemSize\<close> and the
  continuity flag. The header's data pointer is the buffer's base pointer: the matrix
  is a view of the foreign buffer's memory, and nothing is allocated or copied.
\<close>

theorem Mat_init_shares_buffer:
  assumes "accepted_2d info"
  shows "\<exists>M. Mat_init mat info s = (Inr (), s\<lparr>mats := (mats s)(mat \<mapsto> M)\<rparr>)
     \<and> rows M = ucast (shape info ! 0) \<and> cols M = ucast (shape info ! 1)
     \<and> (shape info ! 0 < 0x80000000 \<longrightarrow> sint (rows M) = uint (shape info ! 0))
     \<and> (shape info ! 1 < 0x80000000 \<longrightarrow> sint (cols M) = uint (shape info ! 1))
     \<and> Mat_type M = (if format info = format_float then CV_32F else CV_64F)
     \<and> channels M = 1 \<and> dims M = 2 \<and> isContinuous M
     \<and> step M = scast (cols M) * (if format info = format_float then 4 else 8)
     \<and> data M = ptr info"
proof (cases "format info = format_float")
  case True
  with assms have "Mat_init mat info s
         = (Inr (), s\<lparr>mats := (mats s)(mat \<mapsto>
              Mat_user_data (ucast (shape info ! 0)) (ucast (shape info ! 1)) CV_32FC1 (ptr info))\<rparr>)"
    by (intro Mat_init_float) (simp_all add: accepted_2d_def)
  then show ?thesis
    using True by (intro exI [of _ "Mat_user_data (ucast (shape info ! 0)) (ucast (shape info ! 1)) CV_32FC1 (ptr info)"])
      (simp add: header_32F header_fields step_32F sint_ucast_small)
next
  case False
  with assms have d: "format info = format_double"
    by (simp add: accepted_2d_def)
  with assms have "Mat_init mat info s
         = (Inr (), s\<lparr>mats := (mats s)(mat \<mapsto>
              Mat_user_data (ucast (shape info ! 0)) (ucast (shape info ! 1)) CV_64FC1 (ptr info))\<rparr>)"
    by (intro Mat_init_double) (simp_all add: accepted_2d_def)
  then show ?thesis
    using False by (intro exI [of _ "Mat_user_data (ucast (shape info ! 0)) (ucast (shape info ! 1)) CV_64FC1 (ptr info)"])
      (simp add: header_64F header_fields step_64F sint_ucast_small)
qed

text \<open>
  The buffers of shape \<open>(3, 4)\<close> at address 4096, of \<^verbatim>\<open>float32\<close> and of \<^verbatim>\<open>float64\<close>.
\<close>

theorem Mat_init_shares_buffer_witness:
  "accepted_2d (grid 4096 4 ''f'' 3 4)
   \<and> (\<exists>M. Mat_init 512 (grid 4096 4 ''f'' 3 4) counting = (Inr (), counting\<lparr>mats := [512 \<mapsto> M]\<rparr>)
        \<and> rows M = 3 \<and> cols M = 4 \<and> Mat_type M = CV_32F \<and> step M = 16 \<and> data M = 4096)
   \<and> accepted_2d (grid 4096 8 ''d'' 3 4)
   \<and> (\<exists>M. Mat_init 512 (grid 4096 8 ''d'' 3 4) counting = (Inr (), counting\<lparr>mats := [512 \<mapsto> M]\<rparr>)
        \<and> rows M = 3 \<and> cols M = 4 \<and> Mat_type M = CV_64F \<and> step M = 32 \<and> data M = 4096)"
proof -
  have a: "accepted_2d (grid 4096 4 ''f'' 3 4)" and b: "accepted_2d (grid 4096 8 ''d'' 3 4)"
    by (simp_all add: accepted_2d_def format_float_def format_double_def)
  obtain M where
    "Mat_init 512 (grid 4096 4 ''f'' 3 4) counting = (Inr (), counting\<lparr>mats := [512 \<mapsto> M]\<rparr>)"
    "rows M = 3" "cols M = 4" "Mat_type M = CV_32F" "step M = 16" "data M = 4096"
    using Mat_init_shares_buffer [OF a, of 512 counting] by (auto simp add: format_float_def)
  moreover obtain M' where
    "Mat_init 512 (grid 4096 8 ''d'' 3 4) counting = (Inr (), counting\<lparr>mats := [512 \<mapsto> M']\<rparr>)"
    "rows M' = 3" "cols M' = 4" "Mat_type M' = CV_64F" "step M' = 32" "data M' = 4096"
    using Mat_init_shares_buffer [OF b, of 512 counting] by (auto simp add: format_float_def)
  ultimately show ?thesis
    using a b by blast
qed

text \<open>
  After the constructor has returned, the storage of the matrix is the memory of the
  foreign buffer, and the memory is as it was: no copy has been made.
\<close>

theorem Mat_init_copy_counterexample:
  "fst (Mat_init 512 (grid 4096 4 ''f'' 3 4) counting) = Inr ()
   \<and> map_option data (mats (snd (Mat_init 512 (grid 4096 4 ''f'' 3 4) counting)) 512)
       = Some (ptr (grid 4096 4 ''f'' 3 4))
   \<and> mem (snd (Mat_init 512 (grid 4096 4 ''f'' 3 4) counting)) = mem counting"
  by (simp add: Mat_init_def format_float_def header_fields)

section \<open>Constructing and exporting a matrix\<close>

text \<open>
  C3. For every contiguous row-major \<^verbatim>\<open>float32\<close> buffer of shape \<open>(R, C)\<close> with
  \<open>R\<close> and \<open>C\<close> below \<open>2\<^sup>3\<^sup>1\<close>, constructing a matrix from it and exporting that
  matrix succeeds and yields a descriptor with shape \<open>(R, C)\<close> and strides
  \<open>(4 * C, 4)\<close> whose elements are, position for position, the elements of the input.
\<close>

theorem Mat_round_trip:
  assumes "contiguous_float32_2d info R C" "R < 0x80000000" "C < 0x80000000"
  shows "\<exists>M d. Mat_init mat info s = (Inr (), s\<lparr>mats := (mats s)(mat \<mapsto> M)\<rparr>)
      \<and> Mat_buffer M (s\<lparr>mats := (mats s)(mat \<mapsto> M)\<rparr>) = (Inr d, s\<lparr>mats := (mats s)(mat \<mapsto> M)\<rparr>)
      \<and> shape d = [R, C] \<and> strides d = [4 * C, 4]
      \<and> contents (mem (s\<lparr>mats := (mats s)(mat \<mapsto> M)\<rparr>)) d = contents (mem s) info"
proof -
  let ?M = "Mat_user_data (ucast R) (ucast C) CV_32FC1 (ptr info)"
  let ?s = "s\<lparr>mats := (mats s)(mat \<mapsto> ?M)\<rparr>"
  from assms(1) have i: "Mat_init mat info s = (Inr (), ?s)"
    using Mat_init_float [of info mat s] by (simp add: contiguous_float32_2d_def)
  have "Mat_buffer ?M ?s
         = (Inr \<lparr>ptr = data ?M, itemsize = 4, format = format_float, ndim = 2,
                 shape = [scast (rows ?M), scast (cols ?M)],
                 strides = [4 * scast (cols ?M), 4]\<rparr>, ?s)"
    by (rule Mat_buffer_32F) (simp_all add: header_32F header_fields)
  then have b: "Mat_buffer ?M ?s = (Inr info, ?s)"
    using assms by (simp add: header_fields scast_ucast_small contiguous_float32_2d_def)
  show ?thesis
    using i b assms(1) by (intro exI [of _ ?M] exI [of _ info]) (simp add: contiguous_float32_2d_def)
qed

text \<open>
  The buffer of shape \<open>(3, 4)\<close> with strides \<open>(16, 4)\<close>, and its twelve values.
\<close>

theorem Mat_round_trip_witness:
  "contiguous_float32_2d (grid 4096 4 ''f'' 3 4) 3 4 \<and> (3 :: size_t) < 0x80000000
   \<and> (4 :: size_t) < 0x80000000
   \<and> (\<exists>M d. Mat_init 512 (grid 4096 4 ''f'' 3 4) counting = (Inr (), counting\<lparr>mats := [512 \<mapsto> M]\<rparr>)
        \<and> fst (Mat_buffer M (counting\<lparr>mats := [512 \<mapsto> M]\<rparr>)) = Inr d
        \<and> shape d = [3, 4] \<and> strides d = [16, 4]
        \<and> contents ucast d
           = [[0, 1, 2, 3], [4, 5, 6, 7], [8, 9, 10, 11], [12, 13, 14, 15],
              [16, 17, 18, 19], [20, 21, 22, 23], [24, 25, 26, 27], [28, 29, 30, 31],
              [32, 33, 34, 35], [36, 37, 38, 39], [40, 41, 42, 43], [44, 45, 46, 47]])"
proof -
  have a: "contiguous_float32_2d (grid 4096 4 ''f'' 3 4) 3 4"
    by (simp add: contiguous_float32_2d_def format_float_def)
  have c: "contents ucast (grid 4096 4 ''f'' 3 4)
           = [[0, 1, 2, 3], [4, 5, 6, 7], [8, 9, 10, 11], [12, 13, 14, 15],
              [16, 17, 18, 19], [20, 21, 22, 23], [24, 25, 26, 27], [28, 29, 30, 31],
              [32, 33, 34, 35], [36, 37, 38, 39], [40, 41, 42, 43], [44, 45, 46, 47]]"
    by (simp add: contents_def read_bytes_def upt_rec)
  from Mat_round_trip [OF a, of 512 counting] obtain M d where
    "Mat_init 512 (grid 4096 4 ''f'' 3 4) counting = (Inr (), counting\<lparr>mats := [512 \<mapsto> M]\<rparr>)"
    "Mat_buffer M (counting\<lparr>mats := [512 \<mapsto> M]\<rparr>) = (Inr d, counting\<lparr>mats := [512 \<mapsto> M]\<rparr>)"
    "shape d = [3, 4]" "strides d = [16, 4]"
    "contents ucast d = contents ucast (grid 4096 4 ''f'' 3 4)"
    by auto
  then have "Mat_init 512 (grid 4096 4 ''f'' 3 4) counting = (Inr (), counting\<lparr>mats := [512 \<mapsto> M]\<rparr>)
        \<and> fst (Mat_buffer M (counting\<lparr>mats := [512 \<mapsto> M]\<rparr>)) = Inr d
        \<and> shape d = [3, 4] \<and> strides d = [16, 4]
        \<and> contents ucast d
           = [[0, 1, 2, 3], [4, 5, 6, 7], [8, 9, 10, 11], [12, 13, 14, 15],
              [16, 17, 18, 19], [20, 21, 22, 23], [24, 25, 26, 27], [28, 29, 30, 31],
              [32, 33, 34, 35], [36, 37, 38, 39], [40, 41, 42, 43], [44, 45, 46, 47]]"
    by (simp only: c fst_conv simp_thms)
  then show ?thesis
    using a by (intro conjI exI [of _ M] exI [of _ d]) simp_all
qed

text \<open>
  A column of \<open>2\<^sup>3\<^sup>1\<close> floats: the extent does not fit \<^verbatim>\<open>int\<close>, the header gets
  \<open>rows = -2\<^sup>3\<^sup>1\<close>, and the exported shape is \<open>(2\<^sup>6\<^sup>4 - 2\<^sup>3\<^sup>1, 1)\<close>.
\<close>

theorem Mat_round_trip_large_counterexample:
  "contiguous_float32_2d (grid 4096 4 ''f'' 0x80000000 1) 0x80000000 1
   \<and> Mat_init 512 (grid 4096 4 ''f'' 0x80000000 1) counting
       = (Inr (), counting\<lparr>mats := [512 \<mapsto>
            \<lparr>flags = 0x42FF4005, dims = 2, rows = 0x80000000, cols = 1, data = 4096, step = 4\<rparr>]\<rparr>)
   \<and> fst (Mat_buffer
            \<lparr>flags = 0x42FF4005, dims = 2, rows = 0x80000000, cols = 1, data = 4096, step = 4\<rparr>
            (counting\<lparr>mats := [512 \<mapsto>
            \<lparr>flags = 0x42FF4005, dims = 2, rows = 0x80000000, cols = 1, data = 4096, step = 4\<rparr>]\<rparr>))
       = Inr \<lparr>ptr = 4096, itemsize = 4, format = ''f'', ndim = 2,
              shape = [0xFFFFFFFF80000000, 1], strides = [4, 4]\<rparr>"
  by (simp add: contiguous_float32_2d_def format_float_def Mat_init_def Mat_buffer_def
      py_buffer_info_def sizeof_float_def header_defs CV_ELEM_SIZE_def CV_MAT_DEPTH_def Let_def)

section \<open>Exporting a matrix\<close>

text \<open>
  C5. Constructing a matrix from a rank-2 \<^verbatim>\<open>float64\<close> buffer succeeds: it builds the
  continuous two-dimensional single-channel header of type \<^verbatim>\<open>CV_64F\<close> over the buffer,
  and exporting that matrix fails with the error for an unsupported element type (the
  specification's TypeError), written to \<^verbatim>\<open>std::cout\<close> and thrown. Exporting any
  matrix whose depth is \<^verbatim>\<open>CV_64F\<close> fails, with no descriptor produced, with the error of
  the first check of the export it does not pass: non-contiguous storage, a rank other
  than 2, more than one channel, and the unsupported element type when it passes the
  three others.
\<close>

theorem Mat_float64_asymmetry:
  "(ndim info = 2 \<and> length (strides info) = 2 \<and> length (shape info) = 2
      \<and> format info = format_double \<longrightarrow>
      (\<exists>M. M = \<lparr>flags = 0x42FF4006, dims = 2,
                  rows = ucast (shape info ! 0), cols = ucast (shape info ! 1),
                  data = ptr info, step = scast (ucast (shape info ! 1) :: c_int) * 8\<rparr>
          \<and> Mat_init mat info s = (Inr (), s\<lparr>mats := (mats s)(mat \<mapsto> M)\<rparr>)
          \<and> Mat_type M = CV_64F \<and> isContinuous M \<and> channels M = 1
          \<and> Mat_buffer M (s\<lparr>mats := (mats s)(mat \<mapsto> M)\<rparr>)
              = (Inl (runtime_error ''Only the cv::Mat type CV_32F is currently supported. If needed, it would be easy to add CV_8U and CV_64F.''),
                 s\<lparr>mats := (mats s)(mat \<mapsto> M),
                   cout := cout s @ [''Only the cv::Mat type CV_32F is currently supported. If needed, it would be easy to add CV_8U and CV_64F.'']\<rparr>)))
   \<and> (CV_MAT_DEPTH (flags m) = CV_64F \<longrightarrow>
      Mat_buffer m s =
        (let error_msg =
           (if \<not> isContinuous m then
              ''Only continuous (contiguous) cv::Mat objects are currently supported.''
            else if dims m \<noteq> 2 then
              ''Only cv::Mat objects with dims == 2 are currently supported.''
            else if channels m \<noteq> 1 then
              ''Only cv::Mat objects with channels() == 1 are currently supported.''
            else
              ''Only the cv::Mat type CV_32F is currently supported. If needed, it would be easy to add CV_8U and CV_64F.'')
         in (Inl (runtime_error error_msg), s\<lparr>cout := cout s @ [error_msg]\<rparr>)))"
proof (intro conjI impI)
  assume a: "ndim info = 2 \<and> length (strides info) = 2 \<and> length (shape info) = 2
      \<and> format info = format_double"
  let ?M = "Mat_user_data (ucast (shape info ! 0)) (ucast (shape info ! 1)) CV_64FC1 (ptr info)"
  let ?s = "s\<lparr>mats := (mats s)(mat \<mapsto> ?M)\<rparr>"
  have e: "?M = \<lparr>flags = 0x42FF4006, dims = 2,
                  rows = ucast (shape info ! 0), cols = ucast (shape info ! 1),
                  data = ptr info, step = scast (ucast (shape info ! 1) :: c_int) * 8\<rparr>"
    by (rule header_64F_explicit)
  have i: "Mat_init mat info s = (Inr (), ?s)"
    using a by (intro Mat_init_double) simp_all
  have b: "Mat_buffer ?M ?s
      = (Inl (runtime_error ''Only the cv::Mat type CV_32F is currently supported. If needed, it would be easy to add CV_8U and CV_64F.''),
         s\<lparr>mats := (mats s)(mat \<mapsto> ?M),
           cout := cout s @ [''Only the cv::Mat type CV_32F is currently supported. If needed, it would be easy to add CV_8U and CV_64F.'']\<rparr>)"
    using Mat_buffer_not_32F [of ?M ?s]
    by (simp add: header_64F header_fields CV_64F_neq_32F)
  show "\<exists>M. M = \<lparr>flags = 0x42FF4006, dims = 2,
                  rows = ucast (shape info ! 0), cols = ucast (shape info ! 1),
                  data = ptr info, step = scast (ucast (shape info ! 1) :: c_int) * 8\<rparr>
          \<and> Mat_init mat info s = (Inr (), s\<lparr>mats := (mats s)(mat \<mapsto> M)\<rparr>)
          \<and> Mat_type M = CV_64F \<and> isContinuous M \<and> channels M = 1
          \<and> Mat_buffer M (s\<lparr>mats := (mats s)(mat \<mapsto> M)\<rparr>)
              = (Inl (runtime_error ''Only the cv::Mat type CV_32F is currently supported. If needed, it would be easy to add CV_8U and CV_64F.''),
                 s\<lparr>mats := (mats s)(mat \<mapsto> M),
                   cout := cout s @ [''Only the cv::Mat type CV_32F is currently supported. If needed, it would be easy to add CV_8U and CV_64F.'']\<rparr>)"
    using e i b header_64F [of "ucast (shape info ! 0)" "ucast (shape info ! 1)" "ptr info"]
    by (intro exI [of _ ?M]) (simp only: simp_thms)
next
  assume "CV_MAT_DEPTH (flags m) = CV_64F"
  then show "Mat_buffer m s =
        (let error_msg =
           (if \<not> isContinuous m then
              ''Only continuous (contiguous) cv::Mat objects are currently supported.''
            else if dims m \<noteq> 2 then
              ''Only cv::Mat objects with dims == 2 are currently supported.''
            else if channels m \<noteq> 1 then
              ''Only cv::Mat objects with channels() == 1 are currently supported.''
            else
              ''Only the cv::Mat type CV_32F is currently supported. If needed, it would be easy to add CV_8U and CV_64F.'')
         in (Inl (runtime_error error_msg), s\<lparr>cout := cout s @ [error_msg]\<rparr>))"
    by (rule Mat_buffer_depth_64F)
qed

text \<open>
  The \<^verbatim>\<open>float64\<close> buffer of shape \<open>(3, 4)\<close> and the matrix constructed from it.
\<close>

theorem Mat_float64_asymmetry_witness:
  "ndim (grid 4096 8 ''d'' 3 4) = 2 \<and> length (strides (grid 4096 8 ''d'' 3 4)) = 2
   \<and> length (shape (grid 4096 8 ''d'' 3 4)) = 2 \<and> format (grid 4096 8 ''d'' 3 4) = format_double
   \<and> Mat_init 512 (grid 4096 8 ''d'' 3 4) counting
       = (Inr (), counting\<lparr>mats := [512 \<mapsto>
            \<lparr>flags = 0x42FF4006, dims = 2, rows = 3, cols = 4, data = 4096, step = 32\<rparr>]\<rparr>)
   \<and> CV_MAT_DEPTH (flags \<lparr>flags = 0x42FF4006, dims = 2, rows = 3, cols = 4, data = 4096, step = 32\<rparr>)
       = CV_64F
   \<and> Mat_buffer \<lparr>flags = 0x42FF4006, dims = 2, rows = 3, cols = 4, data = 4096, step = 32\<rparr>
        (counting\<lparr>mats := [512 \<mapsto>
            \<lparr>flags = 0x42FF4006, dims = 2, rows = 3, cols = 4, data = 4096, step = 32\<rparr>]\<rparr>)
       = (Inl (runtime_error ''Only the cv::Mat type CV_32F is currently supported. If needed, it would be easy to add CV_8U and CV_64F.''),
          \<lparr>mem = ucast,
            mats = [512 \<mapsto> \<lparr>flags = 0x42FF4006, dims = 2, rows = 3, cols = 4, data = 4096, step = 32\<rparr>],
            cout = [''Only the cv::Mat type CV_32F is currently supported. If needed, it would be easy to add CV_8U and CV_64F.'']\<rparr>)"
proof -
  have a: "ndim (grid 4096 8 ''d'' 3 4) = 2 \<and> length (strides (grid 4096 8 ''d'' 3 4)) = 2
   \<and> length (shape (grid 4096 8 ''d'' 3 4)) = 2 \<and> format (grid 4096 8 ''d'' 3 4) = format_double"
    by (simp add: format_double_def)
  have d: "CV_MAT_DEPTH (flags \<lparr>flags = 0x42FF4006, dims = 2, rows = 3, cols = 4, data = 4096, step = 32\<rparr>)
       = CV_64F"
    by (simp add: CV_MAT_DEPTH_def CV_64F_def)
  note t = Mat_float64_asymmetry [of "grid 4096 8 ''d'' 3 4" 512 counting
      "\<lparr>flags = 0x42FF4006, dims = 2, rows = 3, cols = 4, data = 4096, step = 32\<rparr>"]
  have i: "Mat_init 512 (grid 4096 8 ''d'' 3 4) counting
       = (Inr (), counting\<lparr>mats := [512 \<mapsto>
            \<lparr>flags = 0x42FF4006, dims = 2, rows = 3, cols = 4, data = 4096, step = 32\<rparr>]\<rparr>)"
    using t a by simp
  have b: "Mat_buffer \<lparr>flags = 0x42FF4006, dims = 2, rows = 3, cols = 4, data = 4096, step = 32\<rparr>
        (counting\<lparr>mats := [512 \<mapsto>
            \<lparr>flags = 0x42FF4006, dims = 2, rows = 3, cols = 4, data = 4096, step = 32\<rparr>]\<rparr>)
       = (Inl (runtime_error ''Only the cv::Mat type CV_32F is currently supported. If needed, it would be easy to add CV_8U and CV_64F.''),
          \<lparr>mem = ucast,
            mats = [512 \<mapsto> \<lparr>flags = 0x42FF4006, dims = 2, rows = 3, cols = 4, data = 4096, step = 32\<rparr>],
            cout = [''Only the cv::Mat type CV_32F is currently supported. If needed, it would be easy to add CV_8U and CV_64F.'']\<rparr>)"
    using t a by simp
  show ?thesis
    using a d i b by (simp only: simp_thms)
qed

text \<open>
  A view of two columns of a \<^verbatim>\<open>float64\<close> matrix with four columns has 64-bit float
  elements and is not continuous: its export fails with the error for non-contiguous
  storage, not with the error for the element type.
\<close>

theorem Mat_buffer_float64_view_counterexample:
  "Mat_type \<lparr>flags = 0x42FF0006, dims = 2, rows = 2, cols = 2, data = 4096, step = 32\<rparr> = CV_64F
   \<and> channels \<lparr>flags = 0x42FF0006, dims = 2, rows = 2, cols = 2, data = 4096, step = 32\<rparr> = 1
   \<and> fst (Mat_buffer \<lparr>flags = 0x42FF0006, dims = 2, rows = 2, cols = 2, data = 4096, step = 32\<rparr>
            counting)
       = Inl (runtime_error ''Only continuous (contiguous) cv::Mat objects are currently supported.'')
   \<and> fst (Mat_buffer \<lparr>flags = 0x42FF0006, dims = 2, rows = 2, cols = 2, data = 4096, step = 32\<rparr>
            counting)
       \<noteq> Inl (runtime_error ''Only the cv::Mat type CV_32F is currently supported. If needed, it would be easy to add CV_8U and CV_64F.'')"
  by (simp add: Mat_buffer_def Let_def header_defs)

text \<open>
  C6. Exporting a matrix that is not continuous fails with the error for
  non-contiguous storage (the specification's LayoutError), written to
  \<^verbatim>\<open>std::cout\<close> and thrown, and no descriptor is produced.
\<close>

theorem Mat_buffer_rejects_non_contiguous:
  "\<not> isContinuous m \<Longrightarrow>
   Mat_buffer m s
     = (Inl (runtime_error ''Only continuous (contiguous) cv::Mat objects are currently supported.''),
        s\<lparr>cout := cout s @ [''Only continuous (contiguous) cv::Mat objects are currently supported.'']\<rparr>)"
  by (simp add: Mat_buffer_def Let_def)

text \<open>
  A view of two columns of a \<^verbatim>\<open>float32\<close> matrix with four columns: the rows are 16
  bytes apart and 8 bytes long.
\<close>

theorem Mat_buffer_rejects_non_contiguous_witness:
  "\<not> isContinuous \<lparr>flags = 0x42FF0005, dims = 2, rows = 2, cols = 2, data = 4096, step = 16\<rparr>
   \<and> scast (cols \<lparr>flags = 0x42FF0005, dims = 2, rows = 2, cols = 2, data = 4096, step = 16\<rparr>) * 4
       < step \<lparr>flags = 0x42FF0005, dims = 2, rows = 2, cols = 2, data = 4096, step = 16\<rparr>
   \<and> Mat_buffer \<lparr>flags = 0x42FF0005, dims = 2, rows = 2, cols = 2, data = 4096, step = 16\<rparr> counting
     = (Inl (runtime_error ''Only continuous (contiguous) cv::Mat objects are currently supported.''),
        counting\<lparr>cout := [''Only continuous (contiguous) cv::Mat objects are currently supported.'']\<rparr>)"
  using Mat_buffer_rejects_non_contiguous
    [of "\<lparr>flags = 0x42FF0005, dims = 2, rows = 2, cols = 2, data = 4096, step = 16\<rparr>" counting]
  by (simp add: isContinuous_def CONTINUOUS_FLAG_def)

section \<open>Failures\<close>

text \<open>
  C8. Every violation of a precondition of a constructor ends the call with an
  exception and leaves the state as it was; whenever a constructor throws, the state
  is as it was, so no vector and no matrix has been built or changed. Every violation
  of a precondition of the matrix export ends the call with an exception, and the
  matrix export never changes the memory or the matrices: a failure only adds a line
  to \<^verbatim>\<open>std::cout\<close>. The vector export has no precondition and no effect.
\<close>

theorem failure_is_atomic:
  "(\<not> accepted_1d info 2 \<longrightarrow> (\<exists>e. Vec2f_init vec info s = (Inl e, s)))
   \<and> (fst (Vec2f_init vec info s) = Inl e1 \<longrightarrow> snd (Vec2f_init vec info s) = s)
   \<and> (\<not> accepted_1d info 4 \<longrightarrow> (\<exists>e. Vec4f_init vec info s = (Inl e, s)))
   \<and> (fst (Vec4f_init vec info s) = Inl e2 \<longrightarrow> snd (Vec4f_init vec info s) = s)
   \<and> (\<not> accepted_2d info \<longrightarrow> (\<exists>e. Mat_init mat info s = (Inl e, s)))
   \<and> (fst (Mat_init mat info s) = Inl e3 \<longrightarrow> snd (Mat_init mat info s) = s)
   \<and> (\<not> (isContinuous m \<and> dims m = 2 \<and> channels m = 1 \<and> Mat_type m = CV_32F) \<longrightarrow>
        (\<exists>e. fst (Mat_buffer m s) = Inl e))
   \<and> mem (snd (Mat_buffer m s)) = mem s \<and> mats (snd (Mat_buffer m s)) = mats s"
  using Vec2f_init_failure [of vec info s e1] Vec4f_init_failure [of vec info s e2]
    Mat_init_failure [of mat info s e3] Mat_buffer_failure [of m s]
    Vec2f_init_violation [of info vec s] Vec4f_init_violation [of info vec s]
    Mat_init_violation [of info mat s] Mat_buffer_violation [of m s]
  by blast

text \<open>
  A rank-2 buffer of 32-bit integers, which every constructor rejects, and the
  non-continuous view, which the export rejects.
\<close>

theorem failure_is_atomic_witness:
  "\<not> accepted_1d (grid 4096 4 ''i'' 1 3) 2 \<and> \<not> accepted_1d (grid 4096 4 ''i'' 1 3) 4
   \<and> \<not> accepted_2d (grid 4096 4 ''i'' 1 3)
   \<and> fst (Vec2f_init 256 (grid 4096 4 ''i'' 1 3) counting)
       = Inl (runtime_error ''Buffer ndim is 2, please hand a buffer with dimension == 1 to create a Vec2f.'')
   \<and> snd (Vec2f_init 256 (grid 4096 4 ''i'' 1 3) counting) = counting
   \<and> fst (Vec4f_init 256 (grid 4096 4 ''i'' 1 3) counting)
       = Inl (runtime_error ''Buffer ndim is 2, please hand a buffer with dimension == 1 to create a Vec4f.'')
   \<and> snd (Vec4f_init 256 (grid 4096 4 ''i'' 1 3) counting) = counting
   \<and> fst (Mat_init 512 (grid 4096 4 ''i'' 1 3) counting)
       = Inl (runtime_error ''Only the cv::Mat types CV_32FC1 and CV_64FC1 are currently supported. If needed, it should not be too hard to add other types.'')
   \<and> snd (Mat_init 512 (grid 4096 4 ''i'' 1 3) counting) = counting
   \<and> \<not> isContinuous \<lparr>flags = 0x42FF0005, dims = 2, rows = 2, cols = 2, data = 4096, step = 16\<rparr>
   \<and> (\<exists>e. fst (Mat_buffer \<lparr>flags = 0x42FF0005, dims = 2, rows = 2, cols = 2, data = 4096, step = 16\<rparr>
              counting) = Inl e)
   \<and> mem (snd (Mat_buffer \<lparr>flags = 0x42FF0005, dims = 2, rows = 2, cols = 2, data = 4096, step = 16\<rparr>
              counting)) = mem counting
   \<and> mats (snd (Mat_buffer \<lparr>flags = 0x42FF0005, dims = 2, rows = 2, cols = 2, data = 4096, step = 16\<rparr>
              counting)) = mats counting"
proof -
  note t = failure_is_atomic [of "grid 4096 4 ''i'' 1 3" 256 counting
      "runtime_error ''Buffer ndim is 2, please hand a buffer with dimension == 1 to create a Vec2f.''"
      "runtime_error ''Buffer ndim is 2, please hand a buffer with dimension == 1 to create a Vec4f.''"
      512
      "runtime_error ''Only the cv::Mat types CV_32FC1 and CV_64FC1 are currently supported. If needed, it should not be too hard to add other types.''"
      "\<lparr>flags = 0x42FF0005, dims = 2, rows = 2, cols = 2, data = 4096, step = 16\<rparr>"]
  have a: "\<not> accepted_1d (grid 4096 4 ''i'' 1 3) 2" "\<not> accepted_1d (grid 4096 4 ''i'' 1 3) 4"
    "\<not> accepted_2d (grid 4096 4 ''i'' 1 3)"
    by (simp_all add: accepted_1d_def accepted_2d_def format_float_def format_double_def)
  have f: "fst (Vec2f_init 256 (grid 4096 4 ''i'' 1 3) counting)
       = Inl (runtime_error ''Buffer ndim is 2, please hand a buffer with dimension == 1 to create a Vec2f.'')"
    "fst (Vec4f_init 256 (grid 4096 4 ''i'' 1 3) counting)
       = Inl (runtime_error ''Buffer ndim is 2, please hand a buffer with dimension == 1 to create a Vec4f.'')"
    "fst (Mat_init 512 (grid 4096 4 ''i'' 1 3) counting)
       = Inl (runtime_error ''Only the cv::Mat types CV_32FC1 and CV_64FC1 are currently supported. If needed, it should not be too hard to add other types.'')"
    by (simp_all add: Vec2f_init_def Vec4f_init_def Mat_init_def to_string.simps digit_char_def
        format_float_def format_double_def)
  have c: "\<not> isContinuous \<lparr>flags = 0x42FF0005, dims = 2, rows = 2, cols = 2, data = 4096, step = 16\<rparr>"
    by (simp add: isContinuous_def CONTINUOUS_FLAG_def)
  show ?thesis
    using t a f c by blast
qed

section \<open>The iterative fit\<close>

text \<open>
  C9. \<^verbatim>\<open>fit_shape_and_pose\<close> passes no cap on the shape coefficients to the native fit
  when its argument \<^verbatim>\<open>num_shape_coefficients_to_fit\<close> is \<open>-1\<close>, and passes the argument
  as the cap when it is any other value. It hands over the landmarks paired with
  their identifiers and three empty containers, and returns the 4-tuple of the mesh and
  the rendering parameters the native fit returns and of the shape coefficients and
  blendshape coefficients it has filled in.
\<close>

theorem fit_shape_and_pose_binding:
  assumes "length landmarks = length landmark_ids"
  shows "fit_shape_and_pose native mm bs landmarks landmark_ids lm w h et cl mc it n lam
         = (case native mm bs
                  (map (\<lambda>(n, p). \<lparr>name = n, coordinates = p\<rparr>) (zip landmark_ids landmarks))
                  lm w h et cl mc it (if n = - 1 then None else Some n) lam None [] [] [] of
              Inl e \<Rightarrow> Inl e
            | Inr ((mesh, rendering_parameters), shape_coefficients, blendshape_coefficients, pts) \<Rightarrow>
                Inr (mesh, rendering_parameters, shape_coefficients, blendshape_coefficients))"
proof -
  let ?coll = "map (\<lambda>i. \<lparr>name = landmark_ids ! i,
                           coordinates = (fst (landmarks ! i), snd (landmarks ! i))\<rparr>)
                 [0..<length landmarks]"
  have "fit_shape_and_pose native mm bs landmarks landmark_ids lm w h et cl mc it n lam
        = (case native mm bs ?coll lm w h et cl mc it (if n = - 1 then None else Some n) lam
                  None [] [] [] of
             Inl e \<Rightarrow> Inl e
           | Inr (result, pca_coeffs', blendshape_coeffs', fitted_image_points') \<Rightarrow>
               Inr (fst result, snd result, pca_coeffs', blendshape_coeffs'))"
    unfolding fit_shape_and_pose_def Let_def
    by (rule if_not_P) (simp add: assms)
  also have "\<dots> = (case native mm bs
                  (map (\<lambda>(n, p). \<lparr>name = n, coordinates = p\<rparr>) (zip landmark_ids landmarks))
                  lm w h et cl mc it (if n = - 1 then None else Some n) lam None [] [] [] of
              Inl e \<Rightarrow> Inl e
            | Inr ((mesh, rendering_parameters), shape_coefficients, blendshape_coefficients, pts) \<Rightarrow>
                Inr (mesh, rendering_parameters, shape_coefficients, blendshape_coefficients))"
    unfolding landmark_collection_zip [OF assms]
    by (simp split: sum.splits prod.splits)
  finally show ?thesis .
qed

text \<open>
  A native fit that reports the names of the landmarks and the cap it received.
\<close>

theorem fit_shape_and_pose_binding_witness:
  "length [(10 :: nat, 20 :: nat), (30, 40)] = length [''a'', ''b'']
   \<and> fit_shape_and_pose
        (\<lambda>mm bs coll lm w h et cl mc it cap lam rp pca bc pts.
           Inr ((map name coll, cap), [lam], map (fst \<circ> coordinates) coll, pts))
        () [()] [(10 :: nat, 20 :: nat), (30, 40)] [''a'', ''b''] () 640 480 () () () 5 (- 1) 30
      = Inr ([''a'', ''b''], None, [30], [10, 30])
   \<and> fit_shape_and_pose
        (\<lambda>mm bs coll lm w h et cl mc it cap lam rp pca bc pts.
           Inr ((map name coll, cap), [lam], map (fst \<circ> coordinates) coll, pts))
        () [()] [(10 :: nat, 20 :: nat), (30, 40)] [''a'', ''b''] () 640 480 () () () 5 10 30
      = Inr ([''a'', ''b''], Some 10, [30], [10, 30])
   \<and> fit_shape_and_pose
        (\<lambda>mm bs coll lm w h et cl mc it cap lam rp pca bc pts.
           Inr ((map name coll, cap), [lam], map (fst \<circ> coordinates) coll, pts))
        () [()] [(10 :: nat, 20 :: nat), (30, 40)] [''a'', ''b''] () 640 480 () () () 5 0 30
      = Inr ([''a'', ''b''], Some 0, [30], [10, 30])"
proof -
  have a: "length [(10 :: nat, 20 :: nat), (30, 40)] = length [''a'', ''b'']"
    by simp
  show ?thesis
    by (simp add: fit_shape_and_pose_binding [OF a])
qed

end
